theory Spec2Isabelle
  imports Main
begin

section \<open>Data model of AccountsStakingPayoutsService\<close>

text \<open>
  Identities (\<open>AccountId\<close>, block hashes) are strings, as the service compares them
  through \<open>toString()\<close>. An \<open>EraIndex\<close> is a \<open>u32\<close>, a balance an unbounded unsigned
  integer: both are naturals. The request parameters \<open>depth\<close>, \<open>era\<close> and
  \<open>currentEra\<close> are JavaScript numbers and are integers here; \<open>createType('EraIndex', n)\<close>
  is only ever applied to \<open>n \<ge> 0\<close> and is \<open>nat n\<close>.
\<close>

type_synonym AccountId = string
type_synonym BlockHash = string
type_synonym EraIndex = nat
type_synonym Balance = nat
type_synonym Perbill = nat

text \<open>\<open>IndividualExposure\<close>: the field \<open>value\<close> of the source is \<open>exposure_value\<close>.\<close>

record IndividualExposure =
  who :: AccountId
  exposure_value :: Balance

record PalletStakingExposure =
  total :: Balance
  own :: Balance
  others :: "IndividualExposure list"

record DeriveEraExposureNominating =
  validatorId :: AccountId
  validatorIndex :: nat

text \<open>The two dictionaries of \<open>DeriveEraExposure\<close> are only ever read by key.\<close>

record DeriveEraExposure =
  era :: EraIndex
  nominators :: "AccountId \<rightharpoonup> DeriveEraExposureNominating list"
  validators :: "AccountId \<rightharpoonup> PalletStakingExposure"

text \<open>
  \<open>PalletStakingEraRewardPoints\<close>: \<open>total\<close> (here \<open>points_total\<close>) and the entries of the
  \<open>individual\<close> map in iteration order.
\<close>

record PalletStakingEraRewardPoints =
  points_total :: nat
  individual :: "(AccountId \<times> nat) list"

text \<open>
  The staking ledger as the service probes it: each of the three historic fields is
  either absent (\<open>undefined\<close>, \<open>None\<close>) or present. A present \<open>lastReward\<close> is itself an
  \<open>Option<EraIndex>\<close>.
\<close>

record StakingLedger =
  legacyClaimedRewards :: "EraIndex list option"
  claimedRewards :: "EraIndex list option"
  lastReward :: "EraIndex option option"

record ICommissionAndLedger =
  commission :: Perbill
  validatorLedger :: "StakingLedger option"

text \<open>
  An element of \<open>exposuresWithCommission\<close>, \<open>{validatorId, ...eraCommissions[idx]}\<close>, is a
  pair of the validator identity and its commission and ledger.
\<close>

type_synonym ExposureWithCommission = "AccountId \<times> ICommissionAndLedger"

record IEraData =
  deriveEraExposure :: DeriveEraExposure
  eraRewardPoints :: PalletStakingEraRewardPoints
  erasValidatorRewardOption :: "Balance option"
  exposuresWithCommission :: "ExposureWithCommission list option"
  eraIndex :: EraIndex

record IPayout =
  payout_validatorId :: AccountId
  nominatorStakingPayout :: string
  claimed :: bool
  totalValidatorRewardPoints :: nat
  validatorCommission :: Perbill
  totalValidatorExposure :: Balance
  nominatorExposure :: Balance

record IEraPayouts =
  payouts_era :: EraIndex
  totalEraRewardPoints :: nat
  totalEraPayout :: Balance
  payouts :: "IPayout list"

text \<open>The per-era result \<open>IEraPayouts | { message: string }\<close>.\<close>

datatype EraPayoutsResult = Message string | EraPayouts IEraPayouts

text \<open>
  Errors as values. \<open>BadRequest\<close> is the http error the service throws itself;
  \<open>TypeError\<close> is the JavaScript run-time error of reading a property of \<open>undefined\<close>.
\<close>

datatype error = BadRequest string | TypeError string

text \<open>
  The external payout primitive \<open>CalcPayout\<close> of \<open>@substrate/calc\<close> is a parameter:
  \<open>from_params\<close> takes the total era reward points and the total era payout, and
  \<open>calc_payout\<close> the validator's points and commission, the two exposures and the
  validator flag; it yields the payout as a decimal string.
\<close>

type_synonym CalcPayout =
  "nat \<Rightarrow> Balance \<Rightarrow> nat \<Rightarrow> Perbill \<Rightarrow> Balance \<Rightarrow> Balance \<Rightarrow> bool \<Rightarrow> string"

section \<open>Pure helpers\<close>

text \<open>\<open>EraIndex.toString()\<close>: the decimal representation.\<close>

fun toString :: "nat \<Rightarrow> string" where
  "toString n =
     (if n < 10 then [''0123456789'' ! n]
      else toString (n div 10) @ [''0123456789'' ! (n mod 10)])"

declare toString.simps [simp del]

text \<open>
  \<open>Vec.indexOf\<close> of polkadot-js compares by value (\<open>eq\<close>) and yields the first
  position, or \<open>-1\<close>.
\<close>

fun indexOf :: "'a list \<Rightarrow> 'a \<Rightarrow> int" where
  "indexOf [] x = - 1"
| "indexOf (y # ys) x =
     (if y = x then 0
      else (let i = indexOf ys x in if i = - 1 then - 1 else i + 1))"

text \<open>
  \<open>extractTotalValidatorRewardPoints\<close>: the first entry of \<open>individual\<close> whose key is
  \<open>validatorId\<close> (here \<open>vId\<close>, the record field has the name), \<open>undefined\<close> when the
  loop finds none.
\<close>

fun extractTotalValidatorRewardPoints_entries :: "(AccountId \<times> nat) list \<Rightarrow> AccountId \<Rightarrow> nat option" where
  "extractTotalValidatorRewardPoints_entries [] vId = None"
| "extractTotalValidatorRewardPoints_entries ((accountId, points) # rest) vId =
     (if accountId = vId then Some points
      else extractTotalValidatorRewardPoints_entries rest vId)"

definition extractTotalValidatorRewardPoints :: "PalletStakingEraRewardPoints \<Rightarrow> AccountId \<Rightarrow> nat option" where
  "extractTotalValidatorRewardPoints points vId =
     extractTotalValidatorRewardPoints_entries (individual points) vId"

text \<open>
  \<open>extractExposure\<close>. \<open>deriveEraExposure.validators[validatorId].total\<close> raises a
  \<open>TypeError\<close> when the validator has no exposure record. The nominator's exposure is
  the validator's own stake when \<open>address\<close> is the validator, and otherwise the value of
  the first entry of \<open>others\<close> whose \<open>who\<close> is \<open>address\<close> (\<open>undefined\<close> when there is none).
\<close>

definition extractExposure :: "AccountId \<Rightarrow> AccountId \<Rightarrow> DeriveEraExposure \<Rightarrow> error + (Balance \<times> Balance option)" where
  "extractExposure address vId dee =
     (case validators dee vId of
        None \<Rightarrow> Inl (TypeError ''Cannot read properties of undefined (reading total)'')
      | Some exposure \<Rightarrow>
          (let totalExposure = total exposure;
               exposureAllNominators = others exposure;
               nominatorExposure =
                 (if address = vId then Some (own exposure)
                  else map_option exposure_value
                         (find (\<lambda>exposure. who exposure = address) exposureAllNominators))
           in Inr (totalExposure, nominatorExposure)))"

text \<open>
  \<open>deriveNominatedExposures\<close>. Its declared result is
  \<open>DeriveEraExposureNominating[] | undefined\<close>, so the model returns an option; the
  body starts from \<open>nominators[address] ?? []\<close>.
\<close>

definition deriveNominatedExposures :: "AccountId \<Rightarrow> DeriveEraExposure \<Rightarrow> DeriveEraExposureNominating list option" where
  "deriveNominatedExposures address dee =
     (let nominatedExposures = (case nominators dee address of Some ns \<Rightarrow> ns | None \<Rightarrow> [])
      in Some (if validators dee address \<noteq> None
               then nominatedExposures @ [\<lparr>validatorId = address, validatorIndex = 9999\<rparr>]
               else nominatedExposures))"

section \<open>Claim resolution and the payouts of one era\<close>

text \<open>
  Lines 349 to 364 of \<open>deriveEraPayouts\<close>: \<open>indexOfEra\<close> is taken from the first field
  present, in the order \<open>legacyClaimedRewards\<close>, \<open>claimedRewards\<close>, \<open>lastReward\<close>; \<open>None\<close>
  stands for the \<open>continue\<close> of the loop. For \<open>lastReward\<close> the variable receives the
  unwrapped era itself.
\<close>

definition indexOfEra :: "StakingLedger \<Rightarrow> EraIndex \<Rightarrow> int option" where
  "indexOfEra ledger e =
     (case legacyClaimedRewards ledger of
        Some eras \<Rightarrow> Some (indexOf eras e)
      | None \<Rightarrow>
         (case claimedRewards ledger of
            Some eras \<Rightarrow> Some (indexOf eras e)
          | None \<Rightarrow>
             (case lastReward ledger of
                Some lastRewardOption \<Rightarrow>
                  (case lastRewardOption of Some r \<Rightarrow> Some (int r) | None \<Rightarrow> None)
              | None \<Rightarrow> None)))"

text \<open>
  \<open>claimed = Number.isInteger(indexOfEra) && indexOfEra !== -1\<close>; every value of
  \<open>indexOfEra\<close> is an integer.
\<close>

definition claimedFlag :: "StakingLedger \<Rightarrow> EraIndex \<Rightarrow> bool option" where
  "claimedFlag ledger e = map_option (\<lambda>i. i \<noteq> - 1) (indexOfEra ledger e)"

text \<open>
  The body of the loop over \<open>exposuresWithCommission\<close>: \<open>Inr None\<close> is \<open>continue\<close>,
  \<open>Inr (Some p)\<close> is \<open>payouts.push(p)\<close>, \<open>Inl\<close> an exception. \<open>calc_payout\<close> is the method of
  the \<open>calcPayout\<close> object built from the totals of the era before the loop.
\<close>

definition payoutOf :: "(nat \<Rightarrow> Perbill \<Rightarrow> Balance \<Rightarrow> Balance \<Rightarrow> bool \<Rightarrow> string) \<Rightarrow> AccountId \<Rightarrow> bool \<Rightarrow> IEraData \<Rightarrow> ExposureWithCommission \<Rightarrow> error + IPayout option" where
  "payoutOf calc_payout address unclaimedOnly d entry =
     (let vId = fst entry
      in case extractTotalValidatorRewardPoints (eraRewardPoints d) vId of
           None \<Rightarrow> Inr None
         | Some validatorPoints \<Rightarrow>
             if validatorPoints = 0 then Inr None
             else
               (case extractExposure address vId (deriveEraExposure d) of
                  Inl e \<Rightarrow> Inl e
                | Inr (totalExposure, nominatorExposureOption) \<Rightarrow>
                   (case nominatorExposureOption of
                      None \<Rightarrow> Inr None
                    | Some nomExposure \<Rightarrow>
                       (case validatorLedger (snd entry) of
                          None \<Rightarrow> Inr None
                        | Some ledger \<Rightarrow>
                           (case claimedFlag ledger (eraIndex d) of
                              None \<Rightarrow> Inr None
                            | Some isClaimed \<Rightarrow>
                                if unclaimedOnly \<and> isClaimed then Inr None
                                else Inr (Some
                                  \<lparr>payout_validatorId = vId,
                                   nominatorStakingPayout =
                                     calc_payout validatorPoints (commission (snd entry))
                                       nomExposure totalExposure (address = vId),
                                   claimed = isClaimed,
                                   totalValidatorRewardPoints = validatorPoints,
                                   validatorCommission = commission (snd entry),
                                   totalValidatorExposure = totalExposure,
                                   nominatorExposure = nomExposure\<rparr>))))))"

fun payoutsLoop :: "(ExposureWithCommission \<Rightarrow> error + IPayout option) \<Rightarrow> ExposureWithCommission list \<Rightarrow> IPayout list \<Rightarrow> error + IPayout list" where
  "payoutsLoop body [] acc = Inr acc"
| "payoutsLoop body (entry # rest) acc =
     (case body entry of
        Inl e \<Rightarrow> Inl e
      | Inr None \<Rightarrow> payoutsLoop body rest acc
      | Inr (Some p) \<Rightarrow> payoutsLoop body rest (acc @ [p]))"

definition deriveEraPayouts :: "CalcPayout \<Rightarrow> AccountId \<Rightarrow> bool \<Rightarrow> IEraData \<Rightarrow> error + EraPayoutsResult" where
  "deriveEraPayouts calc address unclaimedOnly d =
     (case exposuresWithCommission d of
        None \<Rightarrow>
          Inr (Message (address @ '' has no nominations for the era '' @ toString (eraIndex d)))
      | Some entries \<Rightarrow>
         (case erasValidatorRewardOption d of
            None \<Rightarrow>
              Inr (Message (''No ErasValidatorReward for the era '' @ toString (eraIndex d)))
          | Some eraPayout \<Rightarrow>
             (case payoutsLoop
                     (payoutOf (calc (points_total (eraRewardPoints d)) eraPayout)
                        address unclaimedOnly d)
                     entries [] of
                Inl e \<Rightarrow> Inl e
              | Inr ps \<Rightarrow>
                  Inr (EraPayouts
                    \<lparr>payouts_era = eraIndex d,
                     totalEraRewardPoints = points_total (eraRewardPoints d),
                     totalEraPayout = eraPayout,
                     payouts = ps\<rparr>))))"

section \<open>Reading the chain\<close>

text \<open>
  The reads the service makes through \<open>api\<close> and \<open>historicApi\<close>, at the block of the
  request. A constant or storage item that may be missing from the runtime is an
  option; \<open>query_erasStakersClipped\<close> gives the entries of an era as pairs of the
  validator (\<open>key.args[1]\<close>) and its exposure. \<open>query_currentEraPointsEarned\<close> is the
  legacy record read at the block of the given number.
\<close>

record ChainApi =
  rpc_getHeader :: "BlockHash \<Rightarrow> nat"
  consts_historyDepth :: "nat option"
  query_historyDepth :: "nat option"
  query_erasRewardPoints :: "(EraIndex \<Rightarrow> PalletStakingEraRewardPoints) option"
  query_erasStakersClipped :: "EraIndex \<Rightarrow> (AccountId \<times> PalletStakingExposure) list"
  query_erasValidatorReward :: "EraIndex \<Rightarrow> Balance option"
  query_erasValidatorPrefs :: "EraIndex \<Rightarrow> AccountId \<Rightarrow> Perbill"
  query_bonded :: "AccountId \<Rightarrow> AccountId option"
  query_ledger :: "AccountId \<Rightarrow> StakingLedger option"
  consts_sessionsPerEra :: nat
  consts_epochDuration :: nat
  query_currentEraPointsEarned :: "int \<Rightarrow> PalletStakingEraRewardPoints"

text \<open>
  Every read is recorded, in the order the service issues it, so that what has been
  fetched when a request fails can be stated.
\<close>

datatype query =
    GetHeader BlockHash
  | HistoryDepth
  | ErasStakersClipped EraIndex
  | ErasRewardPoints EraIndex
  | ErasValidatorReward EraIndex
  | ErasValidatorPrefs EraIndex AccountId
  | Bonded AccountId
  | Ledger AccountId
  | GetBlockHash int
  | CurrentEraPointsEarned int
  | CurrentEra

text \<open>The reads of per-era data: all but the header and the retention limit.\<close>

fun isEraData :: "query \<Rightarrow> bool" where
  "isEraData (GetHeader h) = False"
| "isEraData HistoryDepth = False"
| "isEraData q = True"

subsection \<open>The exposure graph of an era\<close>

text \<open>
  \<open>mapStakers\<close>: for every entry the validator's exposure is stored under its
  identity, and every element of \<open>others\<close> appends \<open>{validatorId, validatorIndex}\<close> to
  the list of its nominator (\<open>nominators[nominatorId] || []\<close>), the index being the
  position in \<open>others\<close>.
\<close>

fun mapStakers_others :: "AccountId \<Rightarrow> IndividualExposure list \<Rightarrow> nat \<Rightarrow> (AccountId \<rightharpoonup> DeriveEraExposureNominating list) \<Rightarrow> (AccountId \<rightharpoonup> DeriveEraExposureNominating list)" where
  "mapStakers_others vId [] i noms = noms"
| "mapStakers_others vId (x # xs) i noms =
     mapStakers_others vId xs (Suc i)
       (noms(who x \<mapsto>
          (case noms (who x) of Some ns \<Rightarrow> ns | None \<Rightarrow> [])
            @ [\<lparr>validatorId = vId, validatorIndex = i\<rparr>]))"

fun mapStakers_entries :: "(AccountId \<times> PalletStakingExposure) list \<Rightarrow> (AccountId \<rightharpoonup> DeriveEraExposureNominating list) \<Rightarrow> (AccountId \<rightharpoonup> PalletStakingExposure) \<Rightarrow> (AccountId \<rightharpoonup> DeriveEraExposureNominating list) \<times> (AccountId \<rightharpoonup> PalletStakingExposure)" where
  "mapStakers_entries [] noms vals = (noms, vals)"
| "mapStakers_entries ((vId, exposure) # rest) noms vals =
     mapStakers_entries rest
       (mapStakers_others vId (others exposure) 0 noms)
       (vals(vId \<mapsto> exposure))"

definition mapStakers :: "EraIndex \<Rightarrow> (AccountId \<times> PalletStakingExposure) list \<Rightarrow> DeriveEraExposure" where
  "mapStakers e stakers =
     (case mapStakers_entries stakers Map.empty Map.empty of
        (noms, vals) \<Rightarrow> \<lparr>era = e, nominators = noms, validators = vals\<rparr>)"

text \<open>
  The private method \<open>deriveEraExposure\<close> (the name is the field of \<open>IEraData\<close> here,
  hence the suffix).
\<close>

definition deriveEraExposure_at :: "ChainApi \<Rightarrow> EraIndex \<Rightarrow> DeriveEraExposure" where
  "deriveEraExposure_at historicApi e = mapStakers e (query_erasStakersClipped historicApi e)"

subsection \<open>General data of the eras\<close>

text \<open>
  \<open>IErasGeneral\<close> is the tuple of the exposure graph, the reward points and the
  optional era payout. Where \<open>erasRewardPoints\<close> is not in storage, \<open>fetchAllErasGeneral\<close>
  pushes a tuple of one component instead, the legacy points read at a block that
  steps back by \<open>sessionsPerEra * epochDuration\<close> for every era.
\<close>

datatype IErasGeneral =
    ErasGeneral DeriveEraExposure PalletStakingEraRewardPoints "Balance option"
  | LegacyGeneral PalletStakingEraRewardPoints

fun fetchAllErasGeneral_legacy :: "ChainApi \<Rightarrow> int list \<Rightarrow> int \<Rightarrow> IErasGeneral list \<times> query list" where
  "fetchAllErasGeneral_legacy historicApi [] block = ([], [])"
| "fetchAllErasGeneral_legacy historicApi (e # es) block =
     (let eraDurationInBlocks = consts_sessionsPerEra historicApi * consts_epochDuration historicApi;
          points = query_currentEraPointsEarned historicApi block;
          (rest, qs) = fetchAllErasGeneral_legacy historicApi es (block - int eraDurationInBlocks)
      in (LegacyGeneral points # rest,
          [GetBlockHash block, CurrentEraPointsEarned block, CurrentEra] @ qs))"

definition fetchAllErasGeneral :: "ChainApi \<Rightarrow> int \<Rightarrow> int \<Rightarrow> nat \<Rightarrow> IErasGeneral list \<times> query list" where
  "fetchAllErasGeneral historicApi firstEra lastEra blockNumber =
     (case query_erasRewardPoints historicApi of
        Some erasRewardPoints \<Rightarrow>
          (map (\<lambda>e. ErasGeneral (deriveEraExposure_at historicApi (nat e))
                       (erasRewardPoints (nat e))
                       (query_erasValidatorReward historicApi (nat e)))
               [firstEra..lastEra],
           concat (map (\<lambda>e. [ErasStakersClipped (nat e), ErasRewardPoints (nat e),
                              ErasValidatorReward (nat e)])
                       [firstEra..lastEra]))
      | None \<Rightarrow> fetchAllErasGeneral_legacy historicApi [firstEra..lastEra] (int blockNumber))"

subsection \<open>Commission and ledger of the nominated validators\<close>

text \<open>
  \<open>fetchCommissionAndLedger\<close>, with the cache passed in and out. A cached validator
  costs one read of its preferences; otherwise the controller is resolved and its
  ledger read and cached, and a validator without controller or ledger yields the
  commission alone.
\<close>

definition fetchCommissionAndLedger :: "ChainApi \<Rightarrow> AccountId \<Rightarrow> EraIndex \<Rightarrow> (AccountId \<rightharpoonup> StakingLedger) \<Rightarrow> (ICommissionAndLedger \<times> (AccountId \<rightharpoonup> StakingLedger)) \<times> query list" where
  "fetchCommissionAndLedger historicApi vId e validatorLedgerCache =
     (let prefs = query_erasValidatorPrefs historicApi e vId
      in case validatorLedgerCache vId of
           Some ledger \<Rightarrow>
             ((\<lparr>commission = prefs, validatorLedger = Some ledger\<rparr>, validatorLedgerCache),
              [ErasValidatorPrefs e vId])
         | None \<Rightarrow>
            (case query_bonded historicApi vId of
               None \<Rightarrow>
                 ((\<lparr>commission = prefs, validatorLedger = None\<rparr>, validatorLedgerCache),
                  [ErasValidatorPrefs e vId, Bonded vId])
             | Some controller \<Rightarrow>
                (case query_ledger historicApi controller of
                   None \<Rightarrow>
                     ((\<lparr>commission = prefs, validatorLedger = None\<rparr>, validatorLedgerCache),
                      [ErasValidatorPrefs e vId, Bonded vId, Ledger controller])
                 | Some ledger \<Rightarrow>
                     ((\<lparr>commission = prefs, validatorLedger = Some ledger\<rparr>,
                       validatorLedgerCache(vId \<mapsto> ledger)),
                      [ErasValidatorPrefs e vId, Bonded vId, Ledger controller]))))"

text \<open>
  \<open>fetchAllErasCommissions\<close>: per era, one \<open>fetchCommissionAndLedger\<close> for every
  nominated validator, in the order of \<open>deriveNominatedExposures\<close>, and the empty list
  where that is \<open>undefined\<close>. \<open>Promise.all\<close> joins by position; the calls are taken in
  the order they are issued, sharing the cache.
\<close>

fun fetchAllErasCommissions_era :: "ChainApi \<Rightarrow> EraIndex \<Rightarrow> DeriveEraExposureNominating list \<Rightarrow> (AccountId \<rightharpoonup> StakingLedger) \<Rightarrow> (ICommissionAndLedger list \<times> (AccountId \<rightharpoonup> StakingLedger)) \<times> query list" where
  "fetchAllErasCommissions_era historicApi currEra [] cache = (([], cache), [])"
| "fetchAllErasCommissions_era historicApi currEra (n # ns) cache =
     (case fetchCommissionAndLedger historicApi (validatorId n) currEra cache of
        ((c, cache1), q1) \<Rightarrow>
          (case fetchAllErasCommissions_era historicApi currEra ns cache1 of
             ((cs, cache2), q2) \<Rightarrow> ((c # cs, cache2), q1 @ q2)))"

fun fetchAllErasCommissions_eras :: "ChainApi \<Rightarrow> AccountId \<Rightarrow> EraIndex \<Rightarrow> DeriveEraExposure list \<Rightarrow> (AccountId \<rightharpoonup> StakingLedger) \<Rightarrow> ICommissionAndLedger list list \<times> query list" where
  "fetchAllErasCommissions_eras historicApi address currEra [] cache = ([], [])"
| "fetchAllErasCommissions_eras historicApi address currEra (dee # rest) cache =
     (case deriveNominatedExposures address dee of
        None \<Rightarrow>
          (case fetchAllErasCommissions_eras historicApi address (Suc currEra) rest cache of
             (css, q) \<Rightarrow> ([] # css, q))
      | Some nominatedExposures \<Rightarrow>
          (case fetchAllErasCommissions_era historicApi currEra nominatedExposures cache of
             ((cs, cache1), q1) \<Rightarrow>
               (case fetchAllErasCommissions_eras historicApi address (Suc currEra) rest cache1 of
                  (css, q2) \<Rightarrow> (cs # css, q1 @ q2))))"

definition fetchAllErasCommissions :: "ChainApi \<Rightarrow> AccountId \<Rightarrow> EraIndex \<Rightarrow> DeriveEraExposure list \<Rightarrow> ICommissionAndLedger list list \<times> query list" where
  "fetchAllErasCommissions historicApi address firstEra deriveErasExposures =
     fetchAllErasCommissions_eras historicApi address firstEra deriveErasExposures Map.empty"

section \<open>The request\<close>

record BlockAt =
  height :: string
  hash :: BlockHash

record IAccountStakingPayouts =
  at :: BlockAt
  erasPayouts :: "EraPayoutsResult list"

text \<open>
  Lines 108 to 115 of \<open>fetchAccountStakingPayout\<close>: the retention limit starts as 84 and
  is replaced by the constant, else by the storage item (one read), else by 0 when
  \<open>currentEra < 518\<close>.
\<close>

definition historyDepth :: "ChainApi \<Rightarrow> int \<Rightarrow> nat \<times> query list" where
  "historyDepth historicApi currentEra =
     (case consts_historyDepth historicApi of
        Some h \<Rightarrow> (h, [])
      | None \<Rightarrow>
         (case query_historyDepth historicApi of
            Some h \<Rightarrow> (h, [HistoryDepth])
          | None \<Rightarrow> (if currentEra < 518 then (0, []) else (84, []))))"

text \<open>Line 136: \<open>Math.max(0, era - (depth - 1))\<close>.\<close>

definition startEra :: "int \<Rightarrow> int \<Rightarrow> int" where
  "startEra e depth = max 0 (e - (depth - 1))"

text \<open>
  The tuples of \<open>allErasGeneral\<close> as \<open>fetchAccountStakingPayout\<close> destructures them. The
  first component of a legacy tuple is a reward-points record: \<open>deriveNominatedExposures\<close>
  reads \<open>.nominators[address]\<close> of it, which raises a \<open>TypeError\<close> before any commission
  is fetched.
\<close>

fun erasGeneralTuples :: "IErasGeneral list \<Rightarrow> error + (DeriveEraExposure \<times> PalletStakingEraRewardPoints \<times> Balance option) list" where
  "erasGeneralTuples [] = Inr []"
| "erasGeneralTuples (LegacyGeneral points # rest) =
     Inl (TypeError ''Cannot read properties of undefined (reading nominators)'')"
| "erasGeneralTuples (ErasGeneral dee points reward # rest) =
     (case erasGeneralTuples rest of
        Inl err \<Rightarrow> Inl err
      | Inr tuples \<Rightarrow> Inr ((dee, points, reward) # tuples))"

text \<open>
  Lines 153 to 176: the data of the era at position \<open>idx\<close>. The nominated validators
  are zipped with the commissions fetched for them, position by position:
  \<open>fetchAllErasCommissions\<close> has fetched one for each of them, so that
  \<open>eraCommissions[idx]\<close> is always defined.
\<close>

definition eraDataOf :: "AccountId \<Rightarrow> EraIndex \<Rightarrow> DeriveEraExposure \<times> PalletStakingEraRewardPoints \<times> Balance option \<Rightarrow> ICommissionAndLedger list \<Rightarrow> IEraData" where
  "eraDataOf address e general eraCommissions =
     (case general of
        (dee, points, reward) \<Rightarrow>
          \<lparr>deriveEraExposure = dee,
           eraRewardPoints = points,
           erasValidatorRewardOption = reward,
           exposuresWithCommission =
             map_option (\<lambda>nominatedExposures.
                 map (\<lambda>(n, c). (validatorId n, c)) (zip nominatedExposures eraCommissions))
               (deriveNominatedExposures address dee),
           eraIndex = e\<rparr>)"

definition allEraData :: "AccountId \<Rightarrow> EraIndex \<Rightarrow> (DeriveEraExposure \<times> PalletStakingEraRewardPoints \<times> Balance option) list \<Rightarrow> ICommissionAndLedger list list \<Rightarrow> IEraData list" where
  "allEraData address firstEra allErasGeneral allErasCommissions =
     map (\<lambda>(idx, general, eraCommissions). eraDataOf address (idx + firstEra) general eraCommissions)
       (enumerate 0 (zip allErasGeneral allErasCommissions))"

text \<open>\<open>Array.map\<close> over computations that may throw: the first exception ends it.\<close>

fun collect :: "(error + 'a) list \<Rightarrow> error + 'a list" where
  "collect [] = Inr []"
| "collect (Inl err # rest) = Inl err"
| "collect (Inr x # rest) =
     (case collect rest of Inl err \<Rightarrow> Inl err | Inr xs \<Rightarrow> Inr (x # xs))"

text \<open>
  \<open>fetchAccountStakingPayout\<close>: the result or the exception, together with the reads
  made. \<open>at.height\<close> is the decimal string of the block number, which
  \<open>fetchAllErasGeneral\<close> converts back.
\<close>

definition fetchAccountStakingPayout :: "CalcPayout \<Rightarrow> ChainApi \<Rightarrow> BlockHash \<Rightarrow> AccountId \<Rightarrow> int \<Rightarrow> int \<Rightarrow> bool \<Rightarrow> int \<Rightarrow> (error + IAccountStakingPayouts) \<times> query list" where
  "fetchAccountStakingPayout calc api blockHash address depth e unclaimedOnly currentEra =
     (let number = rpc_getHeader api blockHash;
          (hDepth, q0) = historyDepth api currentEra;
          q1 = GetHeader blockHash # q0
      in if hDepth \<noteq> 0 \<and> depth > int hDepth
         then (Inl (BadRequest ''Must specify a depth less than history_depth''), q1)
         else if e - (depth - 1) < currentEra - int hDepth \<and> hDepth \<noteq> 0
         then (Inl (BadRequest
                 (''Must specify era and depth such that era - (depth - 1) is less '' @
                  ''than or equal to current_era - history_depth.'')), q1)
         else
           (let blockAt = \<lparr>height = toString number, hash = blockHash\<rparr>;
                firstEra = startEra e depth;
                (allErasGeneral, q2) = fetchAllErasGeneral api firstEra e number
            in case erasGeneralTuples allErasGeneral of
                 Inl err \<Rightarrow> (Inl err, q1 @ q2)
               | Inr tuples \<Rightarrow>
                  (let (allErasCommissions, q3) =
                         fetchAllErasCommissions api address (nat firstEra) (map fst tuples);
                       eraData = allEraData address (nat firstEra) tuples allErasCommissions
                   in case collect (map (deriveEraPayouts calc address unclaimedOnly) eraData) of
                        Inl err \<Rightarrow> (Inl err, q1 @ q2 @ q3)
                      | Inr results \<Rightarrow>
                          (Inr \<lparr>at = blockAt, erasPayouts = results\<rparr>, q1 @ q2 @ q3))))"

section \<open>The cases skipped by the loop, and example data\<close>



text \<open>
  An instance of the external payout primitive for the examples: the validator's
  share of the era payout by reward points, the commission in parts per billion, and
  the rest split by exposure.
\<close>

definition calc_example :: CalcPayout where
  "calc_example eraPoints eraPayout validatorPoints perbill nomExposure totalExposure isValidator =
     (let validatorPayout = eraPayout * validatorPoints div eraPoints;
          commissionCut = validatorPayout * perbill div 1000000000;
          share = (validatorPayout - commissionCut) * nomExposure div totalExposure
      in toString (if isValidator then commissionCut + share else share))"

text \<open>Three ledgers: the oldest shape, both claimed sets at once, and no claim field.\<close>

definition ledger_lastReward :: StakingLedger where
  "ledger_lastReward =
     \<lparr>legacyClaimedRewards = None, claimedRewards = None, lastReward = Some (Some 5)\<rparr>"

definition ledger_both_sets :: StakingLedger where
  "ledger_both_sets =
     \<lparr>legacyClaimedRewards = Some [], claimedRewards = Some [5], lastReward = None\<rparr>"

definition ledger_claimed_7 :: StakingLedger where
  "ledger_claimed_7 =
     \<lparr>legacyClaimedRewards = Some [6, 7], claimedRewards = None, lastReward = None\<rparr>"

definition ledger_no_shape :: StakingLedger where
  "ledger_no_shape =
     \<lparr>legacyClaimedRewards = None, claimedRewards = None, lastReward = None\<rparr>"

text \<open>
  The stakers of an example era: validator \<open>V\<close> is backed by nominator \<open>N\<close>, validator
  \<open>W\<close> by \<open>N\<close> and \<open>M\<close>, validator \<open>Z\<close> by \<open>M\<close>; \<open>S\<close> lists itself among its nominators.
\<close>

definition stakers_example :: "(AccountId \<times> PalletStakingExposure) list" where
  "stakers_example =
     [(''V'', \<lparr>total = 1000, own = 800, others = [\<lparr>who = ''N'', exposure_value = 200\<rparr>]\<rparr>),
      (''W'', \<lparr>total = 500, own = 100,
               others = [\<lparr>who = ''M'', exposure_value = 300\<rparr>,
                         \<lparr>who = ''N'', exposure_value = 100\<rparr>]\<rparr>),
      (''Z'', \<lparr>total = 50, own = 10, others = [\<lparr>who = ''M'', exposure_value = 40\<rparr>]\<rparr>)]"

definition stakers_self_listed :: "(AccountId \<times> PalletStakingExposure) list" where
  "stakers_self_listed =
     [(''S'', \<lparr>total = 30, own = 10, others = [\<lparr>who = ''S'', exposure_value = 20\<rparr>]\<rparr>)]"

text \<open>Validator \<open>V\<close> is also among the nominators of validator \<open>W\<close>.\<close>

definition stakers_cross :: "(AccountId \<times> PalletStakingExposure) list" where
  "stakers_cross =
     [(''V'', \<lparr>total = 1000, own = 800, others = [\<lparr>who = ''N'', exposure_value = 200\<rparr>]\<rparr>),
      (''W'', \<lparr>total = 500, own = 100,
               others = [\<lparr>who = ''V'', exposure_value = 300\<rparr>,
                         \<lparr>who = ''N'', exposure_value = 100\<rparr>]\<rparr>)]"

text \<open>
  The validators that list \<open>address\<close> among their nominators, in the order of the
  stakers and once for every listing.
\<close>

definition backedValidators :: "AccountId \<Rightarrow> (AccountId \<times> PalletStakingExposure) list \<Rightarrow> AccountId list" where
  "backedValidators address stakers =
     concat (map (\<lambda>(vId, exposure).
                    map (\<lambda>x. vId) (filter (\<lambda>x. who x = address) (others exposure)))
                 stakers)"

definition points_example :: PalletStakingEraRewardPoints where
  "points_example = \<lparr>points_total = 1000, individual = [(''V'', 500), (''W'', 0), (''Y'', 20)]\<rparr>"

text \<open>
  The data of era 7 for nominator \<open>N\<close>, with the given ledger for \<open>V\<close>; \<open>W\<close> has no
  points and \<open>Z\<close>, which \<open>N\<close> does not back, has none recorded.
\<close>

definition eraData_example :: "StakingLedger \<Rightarrow> IEraData" where
  "eraData_example ledger =
     \<lparr>deriveEraExposure = mapStakers 7 stakers_example,
      eraRewardPoints = points_example,
      erasValidatorRewardOption = Some 1000000,
      exposuresWithCommission =
        Some [(''W'', \<lparr>commission = 0, validatorLedger = Some ledger_claimed_7\<rparr>),
              (''V'', \<lparr>commission = 100000000, validatorLedger = Some ledger\<rparr>),
              (''Z'', \<lparr>commission = 0, validatorLedger = None\<rparr>)],
      eraIndex = 7\<rparr>"

text \<open>
  A chain for the examples: the retention limit is the constant 84, every era has the
  example stakers, points and a payout of 1000000, every validator a commission of ten
  per cent, and only \<open>V\<close> a controller with a ledger.
\<close>

definition api_example :: ChainApi where
  "api_example =
     \<lparr>rpc_getHeader = (\<lambda>h. 1000),
      consts_historyDepth = Some 84,
      query_historyDepth = None,
      query_erasRewardPoints = Some (\<lambda>e. points_example),
      query_erasStakersClipped = (\<lambda>e. stakers_example),
      query_erasValidatorReward = (\<lambda>e. Some 1000000),
      query_erasValidatorPrefs = (\<lambda>e v. 100000000),
      query_bonded = (\<lambda>v. if v = ''V'' then Some ''C'' else None),
      query_ledger = (\<lambda>c. if c = ''C'' then Some ledger_claimed_7 else None),
      consts_sessionsPerEra = 6,
      consts_epochDuration = 2400,
      query_currentEraPointsEarned = (\<lambda>block. \<lparr>points_total = 0, individual = []\<rparr>)\<rparr>"

section \<open>Properties of the claim resolution and of the loop over validators\<close>

lemma indexOf_ge: "- 1 \<le> indexOf xs x"
  by (induction xs) (auto simp: Let_def)

lemma indexOf_eq_minus_one: "indexOf xs x = - 1 \<longleftrightarrow> x \<notin> set xs"
proof (induction xs)
  case Nil
  then show ?case by simp
next
  case (Cons y ys)
  have "indexOf ys x + 1 \<noteq> - 1"
    using indexOf_ge [of ys x] by linarith
  with Cons show ?case by (auto simp: Let_def)
qed

lemma claimedFlag_legacyClaimedRewards:
  "legacyClaimedRewards l = Some eras \<Longrightarrow> claimedFlag l e = Some (e \<in> set eras)"
  by (simp add: claimedFlag_def indexOfEra_def indexOf_eq_minus_one)

lemma claimedFlag_claimedRewards:
  "legacyClaimedRewards l = None \<Longrightarrow> claimedRewards l = Some eras \<Longrightarrow>
   claimedFlag l e = Some (e \<in> set eras)"
  by (simp add: claimedFlag_def indexOfEra_def indexOf_eq_minus_one)

lemma claimedFlag_lastReward:
  "legacyClaimedRewards l = None \<Longrightarrow> claimedRewards l = None \<Longrightarrow>
   claimedFlag l e = (case lastReward l of Some (Some r) \<Rightarrow> Some True | _ \<Rightarrow> None)"
  by (simp add: claimedFlag_def indexOfEra_def split: option.splits)


lemma claimedFlag_ignores_lastReward:
  "legacyClaimedRewards l \<noteq> None \<or> claimedRewards l \<noteq> None \<Longrightarrow>
   claimedFlag (l\<lparr>lastReward := r\<rparr>) e = claimedFlag l e"
  by (auto simp: claimedFlag_def indexOfEra_def split: option.splits)

lemma payoutOf_error: "payoutOf calc a u d x = Inl err \<Longrightarrow> \<exists>m. err = TypeError m"
  by (auto simp: payoutOf_def extractExposure_def Let_def split: option.splits if_splits sum.splits prod.splits)

lemma payoutOf_Some:
  assumes "payoutOf calc a u d x = Inr (Some p)"
  shows "payout_validatorId p = fst x"
    and "\<exists>pts. extractTotalValidatorRewardPoints (eraRewardPoints d) (fst x) = Some pts \<and> pts \<noteq> 0
           \<and> totalValidatorRewardPoints p = pts"
    and "\<exists>tot. extractExposure a (fst x) (deriveEraExposure d) = Inr (tot, Some (nominatorExposure p))
           \<and> totalValidatorExposure p = tot"
    and "\<exists>l. validatorLedger (snd x) = Some l \<and> claimedFlag l (eraIndex d) = Some (claimed p)"
    and "u \<longrightarrow> \<not> claimed p"
  using assms
  by (auto simp: payoutOf_def Let_def split: option.splits if_splits sum.splits prod.splits)

lemma payoutOf_unclaimedOnly:
  "payoutOf calc a True d x =
     (case payoutOf calc a False d x of
        Inl err \<Rightarrow> Inl err
      | Inr None \<Rightarrow> Inr None
      | Inr (Some p) \<Rightarrow> if claimed p then Inr None else Inr (Some p))"
  by (auto simp: payoutOf_def Let_def split: option.splits if_splits sum.splits prod.splits)

lemma payoutsLoop_unclaimedOnly:
  "payoutsLoop (payoutOf calc a False d) xs acc = Inr ps \<Longrightarrow>
   payoutsLoop (payoutOf calc a True d) xs (filter (\<lambda>p. \<not> claimed p) acc)
     = Inr (filter (\<lambda>p. \<not> claimed p) ps)"
proof (induction xs arbitrary: acc)
  case Nil
  then show ?case by simp
next
  case (Cons x xs)
  note step = payoutOf_unclaimedOnly [of calc a d x]
  show ?case
  proof (cases "payoutOf calc a False d x")
    case (Inl err)
    with Cons.prems show ?thesis by simp
  next
    case (Inr r)
    show ?thesis
    proof (cases r)
      case None
      with Inr step have "payoutOf calc a True d x = Inr None" by simp
      moreover from Inr None Cons.prems
      have "payoutsLoop (payoutOf calc a False d) xs acc = Inr ps" by simp
      ultimately show ?thesis using Cons.IH [of acc] by simp
    next
      case (Some p)
      with Inr Cons.prems
      have rest: "payoutsLoop (payoutOf calc a False d) xs (acc @ [p]) = Inr ps" by simp
      show ?thesis
      proof (cases "claimed p")
        case True
        with Inr Some step have "payoutOf calc a True d x = Inr None" by simp
        then show ?thesis using Cons.IH [OF rest] True by simp
      next
        case False
        with Inr Some step have "payoutOf calc a True d x = Inr (Some p)" by simp
        then show ?thesis using Cons.IH [OF rest] False by simp
      qed
    qed
  qed
qed

lemma payoutsLoop_mem:
  "payoutsLoop body xs acc = Inr ps \<Longrightarrow> p \<in> set ps \<Longrightarrow>
   p \<in> set acc \<or> (\<exists>x\<in>set xs. body x = Inr (Some p))"
proof (induction xs arbitrary: acc)
  case Nil
  then show ?case by simp
next
  case (Cons x xs)
  then show ?case
    by (cases "body x") (fastforce split: option.splits)+
qed

lemma payoutsLoop_error:
  "payoutsLoop body xs acc = Inl err \<Longrightarrow> \<exists>x\<in>set xs. body x = Inl err"
proof (induction xs arbitrary: acc)
  case Nil
  then show ?case by simp
next
  case (Cons x xs)
  then show ?case
    by (cases "body x") (auto split: option.splits)
qed

lemma payoutsLoop_total:
  "(\<And>x. x \<in> set xs \<Longrightarrow> \<exists>r. body x = Inr r) \<Longrightarrow> \<exists>ps. payoutsLoop body xs acc = Inr ps"
  by (metis payoutsLoop_error Inl_Inr_False obj_sumE)





lemma deriveEraPayouts_payouts:
  assumes "deriveEraPayouts calc a u d = Inr (EraPayouts r)"
  obtains entries eraPayout where
    "exposuresWithCommission d = Some entries"
    "erasValidatorRewardOption d = Some eraPayout"
    "payoutsLoop (payoutOf (calc (points_total (eraRewardPoints d)) eraPayout) a u d) entries []
       = Inr (payouts r)"
    "payouts_era r = eraIndex d"
    "totalEraRewardPoints r = points_total (eraRewardPoints d)"
    "totalEraPayout r = eraPayout"
  using assms
  by (auto simp: deriveEraPayouts_def split: option.splits sum.splits)


text \<open>The definitions unfolded to evaluate the examples.\<close>

lemmas example_defs =
  deriveEraPayouts_def eraData_example_def payoutOf_def
  extractTotalValidatorRewardPoints_def points_example_def extractExposure_def
  mapStakers_def stakers_example_def claimedFlag_def indexOfEra_def
  ledger_lastReward_def ledger_claimed_7_def ledger_both_sets_def ledger_no_shape_def
  calc_example_def toString.simps Let_def

lemmas request_defs =
  fetchAccountStakingPayout_def historyDepth_def startEra_def fetchAllErasGeneral_def
  deriveEraExposure_at_def fetchAllErasCommissions_def fetchCommissionAndLedger_def
  deriveNominatedExposures_def allEraData_def eraDataOf_def api_example_def

section \<open>Properties of the exposure graph\<close>

lemma mapStakers_others_ids:
  "map validatorId (case mapStakers_others vId xs i noms a of Some ns \<Rightarrow> ns | None \<Rightarrow> [])
     = map validatorId (case noms a of Some ns \<Rightarrow> ns | None \<Rightarrow> [])
       @ map (\<lambda>x. vId) (filter (\<lambda>x. who x = a) xs)"
  by (induction xs arbitrary: i noms) (auto split: option.splits)

lemma mapStakers_entries_ids:
  "map validatorId (case fst (mapStakers_entries stakers noms vals) a of Some ns \<Rightarrow> ns | None \<Rightarrow> [])
     = map validatorId (case noms a of Some ns \<Rightarrow> ns | None \<Rightarrow> [])
       @ backedValidators a stakers"
proof (induction stakers arbitrary: noms vals)
  case Nil
  then show ?case by (simp add: backedValidators_def)
next
  case (Cons s stakers)
  obtain vId exposure where s: "s = (vId, exposure)" by (cases s)
  have "backedValidators a (s # stakers)
          = map (\<lambda>x. vId) (filter (\<lambda>x. who x = a) (others exposure)) @ backedValidators a stakers"
    by (simp add: backedValidators_def s)
  then show ?case
    by (simp add: s Cons.IH mapStakers_others_ids)
qed

lemma mapStakers_entries_validators:
  "snd (mapStakers_entries stakers noms vals) v \<noteq> None
     \<longleftrightarrow> vals v \<noteq> None \<or> v \<in> fst ` set stakers"
proof (induction stakers arbitrary: noms vals)
  case Nil
  then show ?case by simp
next
  case (Cons s stakers)
  obtain vId exposure where s: "s = (vId, exposure)" by (cases s)
  have "snd (mapStakers_entries (s # stakers) noms vals) v \<noteq> None
          \<longleftrightarrow> (vals(vId \<mapsto> exposure)) v \<noteq> None \<or> v \<in> fst ` set stakers"
    unfolding s mapStakers_entries.simps by (rule Cons.IH)
  also have "\<dots> \<longleftrightarrow> vals v \<noteq> None \<or> v \<in> fst ` set (s # stakers)"
    by (auto simp: s)
  finally show ?case .
qed

lemma mapStakers_nominators_ids:
  "map validatorId (case nominators (mapStakers e stakers) a of Some ns \<Rightarrow> ns | None \<Rightarrow> [])
     = backedValidators a stakers"
  using mapStakers_entries_ids [of stakers Map.empty Map.empty a]
  by (cases "mapStakers_entries stakers Map.empty Map.empty") (simp add: mapStakers_def)

lemma mapStakers_validators:
  "validators (mapStakers e stakers) v \<noteq> None \<longleftrightarrow> v \<in> fst ` set stakers"
  using mapStakers_entries_validators [of stakers Map.empty Map.empty v]
  by (cases "mapStakers_entries stakers Map.empty Map.empty") (simp add: mapStakers_def)

lemma set_backedValidators:
  "set (backedValidators a stakers)
     = {v. \<exists>exposure. (v, exposure) \<in> set stakers \<and> a \<in> who ` set (others exposure)}"
  by (induction stakers) (auto simp: backedValidators_def image_iff)

lemma backedValidators_subset: "set (backedValidators a stakers) \<subseteq> fst ` set stakers"
  by (force simp: set_backedValidators)

lemma length_filter_who:
  "length (filter (\<lambda>x. who x = a) xs) = count_list (map who xs) a"
  by (induction xs) simp_all

lemma distinct_backedValidators:
  assumes "distinct (map fst stakers)"
    and "\<forall>(v, exposure) \<in> set stakers. count_list (map who (others exposure)) a \<le> 1"
  shows "distinct (backedValidators a stakers)"
  using assms
proof (induction stakers)
  case Nil
  then show ?case by (simp add: backedValidators_def)
next
  case (Cons s stakers)
  obtain vId exposure where s: "s = (vId, exposure)" by (cases s)
  let ?block = "map (\<lambda>x. vId) (filter (\<lambda>x. who x = a) (others exposure))"
  have len: "length ?block = count_list (map who (others exposure)) a"
    by (simp add: length_filter_who)
  have "length ?block \<le> 1" using Cons.prems(2) s len by simp
  then have block: "distinct ?block"
    by (cases ?block) (auto simp: Suc_le_eq)
  have rest: "distinct (backedValidators a stakers)"
    using Cons by simp
  have "vId \<notin> set (backedValidators a stakers)"
    using Cons.prems(1) s backedValidators_subset [of a stakers] by auto
  then have "set ?block \<inter> set (backedValidators a stakers) = {}" by auto
  moreover have "backedValidators a (s # stakers) = ?block @ backedValidators a stakers"
    by (simp add: backedValidators_def s)
  ultimately show ?case using block rest by simp
qed

lemma deriveNominatedExposures_eq:
  "deriveNominatedExposures address dee =
     Some ((case nominators dee address of Some ns \<Rightarrow> ns | None \<Rightarrow> [])
           @ (if validators dee address \<noteq> None
              then [\<lparr>validatorId = address, validatorIndex = 9999\<rparr>] else []))"
  by (simp add: deriveNominatedExposures_def)

section \<open>Properties of the request\<close>


lemma collect_error: "collect xs = Inl err \<Longrightarrow> Inl err \<in> set xs"
proof (induction xs)
  case Nil
  then show ?case by simp
next
  case (Cons x xs)
  then show ?case by (cases x) (auto split: sum.splits)
qed

lemma collect_result: "collect xs = Inr ys \<Longrightarrow> xs = map Inr ys"
proof (induction xs arbitrary: ys)
  case Nil
  then show ?case by simp
next
  case (Cons x xs)
  then show ?case by (cases x) (auto split: sum.splits)
qed


lemma erasGeneralTuples_error: "erasGeneralTuples xs = Inl err \<Longrightarrow> \<exists>m. err = TypeError m"
proof (induction xs)
  case Nil
  then show ?case by simp
next
  case (Cons x xs)
  then show ?case by (cases x) (auto split: sum.splits)
qed

lemma fetchAllErasGeneral_legacy_fst:
  "fst (fetchAllErasGeneral_legacy api es block) = [] \<longleftrightarrow> es = []"
  by (cases es) (simp_all add: Let_def split: prod.splits)


lemma fetchAllErasCommissions_era_length:
  "length (fst (fst (fetchAllErasCommissions_era api e ns cache))) = length ns"
proof (induction ns arbitrary: cache)
  case Nil
  then show ?case by simp
next
  case (Cons n ns)
  obtain c cache1 q1 where step:
    "fetchCommissionAndLedger api (validatorId n) e cache = ((c, cache1), q1)"
    by (metis prod.exhaust)
  obtain cs cache2 q2 where rest:
    "fetchAllErasCommissions_era api e ns cache1 = ((cs, cache2), q2)"
    by (metis prod.exhaust)
  from Cons.IH [of cache1] rest have "length cs = length ns" by simp
  with step rest show ?case by simp
qed


lemma payoutOf_total:
  "validators (deriveEraExposure d) (fst x) \<noteq> None \<Longrightarrow> \<exists>r. payoutOf calc a u d x = Inr r"
  by (auto simp: payoutOf_def extractExposure_def Let_def split: option.splits)

lemma deriveEraPayouts_error:
  "deriveEraPayouts calc a u d = Inl err \<Longrightarrow> \<exists>m. err = TypeError m"
  by (auto simp: deriveEraPayouts_def split: option.splits sum.splits
           dest!: payoutsLoop_error payoutOf_error)


lemma nominated_have_exposure:
  assumes "deriveNominatedExposures a (mapStakers e stakers) = Some ns" and "n \<in> set ns"
  shows "validators (mapStakers e stakers) (validatorId n) \<noteq> None"
proof -
  from assms have "validatorId n \<in> set (map validatorId ns)" by simp
  also have "map validatorId ns = backedValidators a stakers
      @ (if validators (mapStakers e stakers) a \<noteq> None then [a] else [])"
    using assms(1) by (auto simp: deriveNominatedExposures_eq mapStakers_nominators_ids)
  finally have "validatorId n \<in> fst ` set stakers"
    using backedValidators_subset [of a stakers] mapStakers_validators [of e stakers a]
    by (auto split: if_splits)
  then show ?thesis using mapStakers_validators [of e stakers "validatorId n"] by blast
qed

lemma eraDataOf_fields:
  "deriveEraExposure (eraDataOf a e (dee, pts, reward) cs) = dee"
  "eraRewardPoints (eraDataOf a e (dee, pts, reward) cs) = pts"
  "erasValidatorRewardOption (eraDataOf a e (dee, pts, reward) cs) = reward"
  "eraIndex (eraDataOf a e (dee, pts, reward) cs) = e"
  "exposuresWithCommission (eraDataOf a e (dee, pts, reward) cs)
     = map_option (\<lambda>ns. map (\<lambda>(n, c). (validatorId n, c)) (zip ns cs)) (deriveNominatedExposures a dee)"
  by (simp_all add: eraDataOf_def)



lemma historyDepth_queries: "\<not> list_ex isEraData (snd (historyDepth api currentEra))"
  by (simp add: historyDepth_def split: option.splits)

lemma fetchAccountStakingPayout_invalid:
  assumes "fst (historyDepth api currentEra) = hDepth" and "hDepth \<noteq> 0"
    and "depth > int hDepth \<or> e - (depth - 1) < currentEra - int hDepth"
  shows "\<exists>m. fetchAccountStakingPayout calc api h a depth e u currentEra
           = (Inl (BadRequest m), GetHeader h # snd (historyDepth api currentEra))"
  using assms
  by (cases "historyDepth api currentEra") (auto simp: fetchAccountStakingPayout_def Let_def)

lemma fetchAccountStakingPayout_valid:
  assumes "fst (historyDepth api currentEra) = hDepth"
    and "hDepth = 0 \<or> (depth \<le> int hDepth \<and> currentEra - int hDepth \<le> e - (depth - 1))"
  shows "fst (fetchAccountStakingPayout calc api h a depth e u currentEra) =
     (case erasGeneralTuples (fst (fetchAllErasGeneral api (startEra e depth) e (rpc_getHeader api h))) of
        Inl err \<Rightarrow> Inl err
      | Inr tuples \<Rightarrow>
         (case collect (map (deriveEraPayouts calc a u)
                  (allEraData a (nat (startEra e depth)) tuples
                     (fst (fetchAllErasCommissions api a (nat (startEra e depth)) (map fst tuples))))) of
            Inl err \<Rightarrow> Inl err
          | Inr results \<Rightarrow>
              Inr \<lparr>at = \<lparr>height = toString (rpc_getHeader api h), hash = h\<rparr>,
                   erasPayouts = results\<rparr>))"
  using assms
  by (cases "historyDepth api currentEra")
     (auto simp: fetchAccountStakingPayout_def Let_def split: prod.splits sum.splits)

lemma fetchAccountStakingPayout_valid_error:
  assumes "fst (historyDepth api currentEra) = hDepth"
    and "hDepth = 0 \<or> (depth \<le> int hDepth \<and> currentEra - int hDepth \<le> e - (depth - 1))"
    and "fst (fetchAccountStakingPayout calc api h a depth e u currentEra) = Inl err"
  shows "\<exists>m. err = TypeError m"
proof -
  note eq = fetchAccountStakingPayout_valid [OF assms(1,2), of calc h a u]
  show ?thesis
  proof (cases "erasGeneralTuples (fst (fetchAllErasGeneral api (startEra e depth) e (rpc_getHeader api h)))")
    case (Inl err')
    with eq assms(3) have "err' = err" by simp
    with Inl show ?thesis by (auto dest: erasGeneralTuples_error)
  next
    case (Inr tuples)
    with eq assms(3) have "collect (map (deriveEraPayouts calc a u)
                  (allEraData a (nat (startEra e depth)) tuples
                     (fst (fetchAllErasCommissions api a (nat (startEra e depth)) (map fst tuples)))))
             = Inl err"
      by (simp split: sum.splits)
    from collect_error [OF this] obtain d where "deriveEraPayouts calc a u d = Inl err"
      by auto
    then show ?thesis by (rule deriveEraPayouts_error)
  qed
qed










lemma BadRequest_iff:
  "(\<exists>m. fst (fetchAccountStakingPayout calc api h a depth e u currentEra) = Inl (BadRequest m))
     \<longleftrightarrow> fst (historyDepth api currentEra) \<noteq> 0
         \<and> (depth > int (fst (historyDepth api currentEra))
            \<or> e - (depth - 1) < currentEra - int (fst (historyDepth api currentEra)))"
  (is "?bad \<longleftrightarrow> ?invalid")
proof
  assume ?bad
  show ?invalid
  proof (rule ccontr)
    assume "\<not> ?invalid"
    then have valid: "fst (historyDepth api currentEra) = 0
        \<or> (depth \<le> int (fst (historyDepth api currentEra))
           \<and> currentEra - int (fst (historyDepth api currentEra)) \<le> e - (depth - 1))"
      by auto
    from \<open>?bad\<close> obtain m where
      "fst (fetchAccountStakingPayout calc api h a depth e u currentEra) = Inl (BadRequest m)" ..
    from fetchAccountStakingPayout_valid_error [OF refl valid this] show False by simp
  qed
next
  assume ?invalid
  then show ?bad
    using fetchAccountStakingPayout_invalid [OF refl, of api currentEra depth e calc h a u]
    by auto
qed

lemma BadRequest_queries:
  assumes "fst (fetchAccountStakingPayout calc api h a depth e u currentEra) = Inl (BadRequest m)"
  shows "\<not> list_ex isEraData (snd (fetchAccountStakingPayout calc api h a depth e u currentEra))"
proof -
  from assms BadRequest_iff [of calc api h a depth e u currentEra]
  have "fst (historyDepth api currentEra) \<noteq> 0"
    "depth > int (fst (historyDepth api currentEra))
       \<or> e - (depth - 1) < currentEra - int (fst (historyDepth api currentEra))"
    by blast+
  from fetchAccountStakingPayout_invalid [OF refl this, of calc h a u]
  show ?thesis using historyDepth_queries [of api currentEra] by auto
qed


lemma fetchAllErasCommissions_eras_nth_length:
  "i < length dees \<Longrightarrow>
   length (fst (fetchAllErasCommissions_eras api a e dees cache) ! i)
     = length (the (deriveNominatedExposures a (dees ! i)))"
proof (induction dees arbitrary: e cache i)
  case Nil
  then show ?case by simp
next
  case (Cons dee dees)
  obtain ns where ns: "deriveNominatedExposures a dee = Some ns"
    by (simp add: deriveNominatedExposures_eq)
  obtain cs cache1 q1 where step:
    "fetchAllErasCommissions_era api e ns cache = ((cs, cache1), q1)"
    by (metis prod.exhaust)
  obtain css q2 where rest:
    "fetchAllErasCommissions_eras api a (Suc e) dees cache1 = (css, q2)"
    by (metis prod.exhaust)
  have cs: "length cs = length ns"
    using fetchAllErasCommissions_era_length [of api e ns cache] step by simp
  show ?case
  proof (cases i)
    case 0
    with ns step rest cs show ?thesis by simp
  next
    case (Suc k)
    with Cons.prems have "k < length dees" by simp
    from Cons.IH [OF this, of "Suc e" cache1] rest
    have "length (css ! k) = length (the (deriveNominatedExposures a (dees ! k)))" by simp
    with Suc ns step rest show ?thesis by simp
  qed
qed

lemma fetchAccountStakingPayout_Inr:
  assumes res: "fst (fetchAccountStakingPayout calc api h a depth e u currentEra) = Inr res"
  obtains ds where "map (deriveEraPayouts calc a u) ds = map Inr (erasPayouts res)"
proof -
  define hDepth where "hDepth = fst (historyDepth api currentEra)"
  have valid: "hDepth = 0 \<or> (depth \<le> int hDepth \<and> currentEra - int hDepth \<le> e - (depth - 1))"
  proof (rule ccontr)
    assume "\<not> ?thesis"
    then have "hDepth \<noteq> 0" "depth > int hDepth \<or> e - (depth - 1) < currentEra - int hDepth"
      by auto
    from fetchAccountStakingPayout_invalid [OF hDepth_def [symmetric] this, of calc h a u]
    show False using res by auto
  qed
  note eq = fetchAccountStakingPayout_valid [OF hDepth_def [symmetric] valid, of calc h a u]
  obtain tuples where tuples:
    "erasGeneralTuples (fst (fetchAllErasGeneral api (startEra e depth) e (rpc_getHeader api h)))
       = Inr tuples"
    using eq res by (auto split: sum.splits)
  let ?ds = "allEraData a (nat (startEra e depth)) tuples
               (fst (fetchAllErasCommissions api a (nat (startEra e depth)) (map fst tuples)))"
  have "collect (map (deriveEraPayouts calc a u) ?ds) = Inr (erasPayouts res)"
    using eq res tuples by (auto split: sum.splits)
  from collect_result [OF this] that show ?thesis by blast
qed

lemma fetchAccountStakingPayout_result_mem:
  assumes "fst (fetchAccountStakingPayout calc api h a depth e u currentEra) = Inr res"
    and "r \<in> set (erasPayouts res)"
  shows "\<exists>d. deriveEraPayouts calc a u d = Inr r"
proof -
  from fetchAccountStakingPayout_Inr [OF assms(1)]
  obtain ds where ds: "map (deriveEraPayouts calc a u) ds = map Inr (erasPayouts res)" .
  from assms(2) have "Inr r \<in> set (map Inr (erasPayouts res))" by simp
  with ds have "Inr r \<in> set (map (deriveEraPayouts calc a u) ds)" by simp
  then show ?thesis by auto
qed


lemma eraDataOf_entries_total:
  assumes "exposuresWithCommission (eraDataOf a e (mapStakers e' stakers, pts, reward) cs) = Some entries"
    and "x \<in> set entries"
  shows "\<exists>r. payoutOf cp a u (eraDataOf a e (mapStakers e' stakers, pts, reward) cs) x = Inr r"
proof -
  from assms obtain ns where ns: "deriveNominatedExposures a (mapStakers e' stakers) = Some ns"
    and entries: "entries = map (\<lambda>(n, c). (validatorId n, c)) (zip ns cs)"
    by (auto simp: eraDataOf_fields)
  from assms(2) entries obtain n c where "(n, c) \<in> set (zip ns cs)" "x = (validatorId n, c)" by auto
  then have "n \<in> set ns" "fst x = validatorId n" by (auto dest: set_zip_leftD)
  with nominated_have_exposure [OF ns]
  have "validators (deriveEraExposure (eraDataOf a e (mapStakers e' stakers, pts, reward) cs)) (fst x) \<noteq> None"
    by (simp add: eraDataOf_fields)
  then show ?thesis by (rule payoutOf_total)
qed

section \<open>The claimed flag\<close>

text \<open>
  Claim C1. For a ledger with neither claimed-era set but with the last-rewarded-era
  scalar, the claim asks that the claimed flag for a requested era be true exactly when
  the scalar is set and equal to that era. The loop stores the unwrapped scalar in
  \<open>indexOfEra\<close> and tests it against \<open>-1\<close>, as it does for the result of \<open>indexOf\<close>: with
  the scalar set to era 5, the request for era 7 gets a payout entry whose claimed flag
  is true.
\<close>

theorem lastReward_claimed_for_every_era:
  "claimedFlag ledger_lastReward 7 = Some True \<and>
   deriveEraPayouts calc_example ''N'' False (eraData_example ledger_lastReward)
     = Inr (EraPayouts
         \<lparr>payouts_era = 7, totalEraRewardPoints = 1000, totalEraPayout = 1000000,
          payouts = [\<lparr>payout_validatorId = ''V'', nominatorStakingPayout = ''90000'',
                      claimed = True, totalValidatorRewardPoints = 500,
                      validatorCommission = 100000000, totalValidatorExposure = 1000,
                      nominatorExposure = 200\<rparr>]\<rparr>)"
  by (simp add: example_defs)

text \<open>
  Claim C3, as stated: where the modern claimed-era set (\<open>claimedRewards\<close>) is present,
  its membership test alone determines the claimed flag. It fails on a ledger that also
  has the legacy-named set: era 5 is in \<open>claimedRewards\<close>, is not in
  \<open>legacyClaimedRewards\<close>, and the flag is false.
\<close>

theorem modern_set_does_not_decide_counterexample:
  "claimedRewards ledger_both_sets = Some [5] \<and> (5::nat) \<in> set [5] \<and>
   claimedFlag ledger_both_sets 5 = Some False"
  by (simp add: example_defs)

text \<open>
  Claim C3, amended. The resolution is ordered by field: where \<open>legacyClaimedRewards\<close> is
  present its membership test alone determines the claimed flag; otherwise, where
  \<open>claimedRewards\<close> is present, its membership test determines it; the scalar
  \<open>lastReward\<close> has no influence when either set is present. The flag so resolved is the
  \<open>claimed\<close> field of the payout entry.
\<close>

theorem claim_resolution_priority:
  "(legacyClaimedRewards l = Some eras \<longrightarrow> claimedFlag l e = Some (e \<in> set eras)) \<and>
   (legacyClaimedRewards l = None \<and> claimedRewards l = Some eras \<longrightarrow>
      claimedFlag l e = Some (e \<in> set eras)) \<and>
   (legacyClaimedRewards l \<noteq> None \<or> claimedRewards l \<noteq> None \<longrightarrow>
      claimedFlag (l\<lparr>lastReward := r\<rparr>) e = claimedFlag l e) \<and>
   (payoutOf cp a u d x = Inr (Some p) \<longrightarrow>
      (\<exists>ledger. validatorLedger (snd x) = Some ledger \<and>
         claimedFlag ledger (eraIndex d) = Some (claimed p)))"
  using claimedFlag_legacyClaimedRewards [of l eras e]
    claimedFlag_claimedRewards [of l eras e]
    claimedFlag_ignores_lastReward [of l r e]
    payoutOf_Some(4) [of cp a u d x p]
  by blast

theorem claim_resolution_priority_witness:
  "legacyClaimedRewards ledger_claimed_7 = Some [6, 7] \<and>
   claimedFlag ledger_claimed_7 7 = Some True \<and>
   claimedFlag ledger_claimed_7 5 = Some False \<and>
   legacyClaimedRewards (ledger_no_shape\<lparr>claimedRewards := Some [5]\<rparr>) = None \<and>
   claimedRewards (ledger_no_shape\<lparr>claimedRewards := Some [5]\<rparr>) = Some [5] \<and>
   claimedFlag (ledger_no_shape\<lparr>claimedRewards := Some [5]\<rparr>) 5 = Some True \<and>
   claimedFlag (ledger_claimed_7\<lparr>lastReward := Some (Some 5)\<rparr>) 5 = Some False"
  using claim_resolution_priority [of ledger_claimed_7 "[6, 7]" 7]
    claim_resolution_priority [of ledger_claimed_7 "[6, 7]" 5 "Some (Some 5)"]
    claim_resolution_priority [of "ledger_no_shape\<lparr>claimedRewards := Some [5]\<rparr>" "[5]" 5]
  by (simp add: ledger_claimed_7_def ledger_no_shape_def)

section \<open>Validators without a payout entry\<close>



section \<open>Unclaimed payouts only\<close>

text \<open>
  Claim C8. With \<open>unclaimedOnly\<close> set, no payout entry of an era has its claimed flag
  true: the payouts are those of the unfiltered result without the claimed ones, under
  the same era index, total reward points and total payout; when every entry is
  claimed the payouts are the empty list, and the result is still the era record. So
  it is for every era of a request.
\<close>

theorem unclaimedOnly_omits_claimed:
  "(deriveEraPayouts calc a True d = Inr (EraPayouts r') \<longrightarrow>
      (\<forall>p \<in> set (payouts r'). \<not> claimed p)) \<and>
   (deriveEraPayouts calc a False d = Inr (EraPayouts r) \<longrightarrow>
      deriveEraPayouts calc a True d
        = Inr (EraPayouts
            \<lparr>payouts_era = eraIndex d,
             totalEraRewardPoints = points_total (eraRewardPoints d),
             totalEraPayout = the (erasValidatorRewardOption d),
             payouts = filter (\<lambda>p. \<not> claimed p) (payouts r)\<rparr>)) \<and>
   (deriveEraPayouts calc a False d = Inr (EraPayouts r) \<and> (\<forall>p \<in> set (payouts r). claimed p) \<longrightarrow>
      deriveEraPayouts calc a True d
        = Inr (EraPayouts
            \<lparr>payouts_era = eraIndex d,
             totalEraRewardPoints = points_total (eraRewardPoints d),
             totalEraPayout = the (erasValidatorRewardOption d),
             payouts = []\<rparr>)) \<and>
   (fst (fetchAccountStakingPayout calc api h a depth lastEra True currentEra) = Inr res \<longrightarrow>
      (\<forall>ep. EraPayouts ep \<in> set (erasPayouts res) \<longrightarrow> (\<forall>p \<in> set (payouts ep). \<not> claimed p)))"
proof -
  have first: "\<forall>p \<in> set (payouts r'). \<not> claimed p"
    if "deriveEraPayouts calc a True d = Inr (EraPayouts r')"
  proof
    fix p assume p: "p \<in> set (payouts r')"
    from that obtain entries calcPayout where
      "payoutsLoop (payoutOf calcPayout a True d) entries [] = Inr (payouts r')"
      by (auto elim: deriveEraPayouts_payouts)
    from payoutsLoop_mem [OF this p]
    obtain entry where "payoutOf calcPayout a True d entry = Inr (Some p)" by fastforce
    from payoutOf_Some(5) [OF this] show "\<not> claimed p" by simp
  qed
  have second: "deriveEraPayouts calc a True d
        = Inr (EraPayouts
            \<lparr>payouts_era = eraIndex d,
             totalEraRewardPoints = points_total (eraRewardPoints d),
             totalEraPayout = the (erasValidatorRewardOption d),
             payouts = filter (\<lambda>p. \<not> claimed p) (payouts r)\<rparr>)"
    if "deriveEraPayouts calc a False d = Inr (EraPayouts r)"
  proof -
    from that obtain entries eraPayout where d:
      "exposuresWithCommission d = Some entries"
      "erasValidatorRewardOption d = Some eraPayout"
      and loop: "payoutsLoop (payoutOf (calc (points_total (eraRewardPoints d)) eraPayout) a False d)
                   entries [] = Inr (payouts r)"
      by (auto elim: deriveEraPayouts_payouts)
    from payoutsLoop_unclaimedOnly [OF loop]
    have "payoutsLoop (payoutOf (calc (points_total (eraRewardPoints d)) eraPayout) a True d) entries []
            = Inr (filter (\<lambda>p. \<not> claimed p) (payouts r))" by simp
    with d show ?thesis by (simp add: deriveEraPayouts_def)
  qed
  have third: "filter (\<lambda>p. \<not> claimed p) (payouts r) = []"
    if "\<forall>p \<in> set (payouts r). claimed p"
    using that by (simp add: filter_empty_conv)
  have fourth: "\<forall>ep. EraPayouts ep \<in> set (erasPayouts res) \<longrightarrow> (\<forall>p \<in> set (payouts ep). \<not> claimed p)"
    if res: "fst (fetchAccountStakingPayout calc api h a depth lastEra True currentEra) = Inr res"
  proof (intro allI impI)
    fix ep assume "EraPayouts ep \<in> set (erasPayouts res)"
    from fetchAccountStakingPayout_result_mem [OF res this]
    obtain d' where d': "deriveEraPayouts calc a True d' = Inr (EraPayouts ep)" ..
    show "\<forall>p \<in> set (payouts ep). \<not> claimed p"
    proof
      fix p assume p: "p \<in> set (payouts ep)"
      from d' obtain entries calcPayout where
        "payoutsLoop (payoutOf calcPayout a True d') entries [] = Inr (payouts ep)"
        by (auto elim: deriveEraPayouts_payouts)
      from payoutsLoop_mem [OF this p]
      obtain entry where "payoutOf calcPayout a True d' entry = Inr (Some p)" by fastforce
      from payoutOf_Some(5) [OF this] show "\<not> claimed p" by simp
    qed
  qed
  show ?thesis
  proof (intro conjI impI)
    assume "deriveEraPayouts calc a True d = Inr (EraPayouts r')"
    then show "\<forall>p \<in> set (payouts r'). \<not> claimed p" by (rule first)
  next
    assume "deriveEraPayouts calc a False d = Inr (EraPayouts r)"
    then show "deriveEraPayouts calc a True d
        = Inr (EraPayouts
            \<lparr>payouts_era = eraIndex d,
             totalEraRewardPoints = points_total (eraRewardPoints d),
             totalEraPayout = the (erasValidatorRewardOption d),
             payouts = filter (\<lambda>p. \<not> claimed p) (payouts r)\<rparr>)"
      by (rule second)
  next
    assume asm: "deriveEraPayouts calc a False d = Inr (EraPayouts r)
                  \<and> (\<forall>p \<in> set (payouts r). claimed p)"
    then have "filter (\<lambda>p. \<not> claimed p) (payouts r) = []" by (intro third) simp
    with second asm show "deriveEraPayouts calc a True d
        = Inr (EraPayouts
            \<lparr>payouts_era = eraIndex d,
             totalEraRewardPoints = points_total (eraRewardPoints d),
             totalEraPayout = the (erasValidatorRewardOption d),
             payouts = []\<rparr>)"
      by simp
  next
    assume "fst (fetchAccountStakingPayout calc api h a depth lastEra True currentEra) = Inr res"
    then show "\<forall>ep. EraPayouts ep \<in> set (erasPayouts res) \<longrightarrow>
                (\<forall>p \<in> set (payouts ep). \<not> claimed p)"
      by (rule fourth)
  qed
qed

theorem unclaimedOnly_omits_claimed_witness:
  "deriveEraPayouts calc_example ''N'' False (eraData_example ledger_claimed_7)
     = Inr (EraPayouts
         \<lparr>payouts_era = 7, totalEraRewardPoints = 1000, totalEraPayout = 1000000,
          payouts = [\<lparr>payout_validatorId = ''V'', nominatorStakingPayout = ''90000'',
                      claimed = True, totalValidatorRewardPoints = 500,
                      validatorCommission = 100000000, totalValidatorExposure = 1000,
                      nominatorExposure = 200\<rparr>]\<rparr>) \<and>
   deriveEraPayouts calc_example ''N'' True (eraData_example ledger_claimed_7)
     = Inr (EraPayouts
         \<lparr>payouts_era = 7, totalEraRewardPoints = 1000, totalEraPayout = 1000000,
          payouts = []\<rparr>) \<and>
   fst (fetchAccountStakingPayout calc_example api_example ''0xab'' ''N'' 1 7 True 10)
     = Inr \<lparr>at = \<lparr>height = ''1000'', hash = ''0xab''\<rparr>,
            erasPayouts =
              [EraPayouts \<lparr>payouts_era = 7, totalEraRewardPoints = 1000,
                           totalEraPayout = 1000000, payouts = []\<rparr>]\<rparr>"
  using unclaimedOnly_omits_claimed
    [where calc = calc_example and a = "''N''" and d = "eraData_example ledger_claimed_7"
       and r' = "\<lparr>payouts_era = 7, totalEraRewardPoints = 1000, totalEraPayout = 1000000,
          payouts = []\<rparr>"
       and r = "\<lparr>payouts_era = 7, totalEraRewardPoints = 1000, totalEraPayout = 1000000,
          payouts = [\<lparr>payout_validatorId = ''V'', nominatorStakingPayout = ''90000'',
                      claimed = True, totalValidatorRewardPoints = 500,
                      validatorCommission = 100000000, totalValidatorExposure = 1000,
                      nominatorExposure = 200\<rparr>]\<rparr>"
       and api = api_example and h = "''0xab''" and depth = 1 and lastEra = 7 and currentEra = 10
       and res = "\<lparr>at = \<lparr>height = ''1000'', hash = ''0xab''\<rparr>,
            erasPayouts =
              [EraPayouts \<lparr>payouts_era = 7, totalEraRewardPoints = 1000,
                           totalEraPayout = 1000000, payouts = []\<rparr>]\<rparr>"]
  by (simp add: request_defs example_defs)

section \<open>The nominated validators\<close>

text \<open>
  Claim C4, as stated: for every exposure graph in which the address is an active
  validator, the derived nominated validators contain the address exactly once. It
  fails for a validator that is listed among its own nominators: the entry derived from
  the listing and the synthesized self entry both name it.
\<close>

theorem self_nomination_twice_counterexample:
  "validators (mapStakers 7 stakers_self_listed) ''S''
     = Some \<lparr>total = 30, own = 10, others = [\<lparr>who = ''S'', exposure_value = 20\<rparr>]\<rparr> \<and>
   deriveNominatedExposures ''S'' (mapStakers 7 stakers_self_listed)
     = Some [\<lparr>validatorId = ''S'', validatorIndex = 0\<rparr>,
             \<lparr>validatorId = ''S'', validatorIndex = 9999\<rparr>] \<and>
   count_list (map validatorId (the (deriveNominatedExposures ''S'' (mapStakers 7 stakers_self_listed)))) ''S'' = 2"
  by (simp add: deriveNominatedExposures_def mapStakers_def stakers_self_listed_def)

text \<open>
  Claim C4, amended. The derived list is the explicit nominations of the address,
  followed by exactly one synthesized self entry when the address is an active
  validator. For the graph built from the stakers of an era: an active validator that
  does not list itself among its own nominators occurs exactly once, also when other
  validators list it; and when moreover the stakers have distinct validators and none
  lists the address twice, no validator identity occurs twice.
\<close>

theorem nominated_validators_self_once:
  "(validators dee address \<noteq> None \<longrightarrow>
      deriveNominatedExposures address dee
        = Some ((case nominators dee address of Some ns \<Rightarrow> ns | None \<Rightarrow> [])
                @ [\<lparr>validatorId = address, validatorIndex = 9999\<rparr>])) \<and>
   (validators dee address = None \<longrightarrow>
      deriveNominatedExposures address dee
        = Some (case nominators dee address of Some ns \<Rightarrow> ns | None \<Rightarrow> [])) \<and>
   (address \<in> fst ` set stakers \<and>
    (\<forall>(v, exposure) \<in> set stakers. v = address \<longrightarrow> address \<notin> who ` set (others exposure)) \<longrightarrow>
      count_list (map validatorId (the (deriveNominatedExposures address (mapStakers e stakers))))
        address = 1) \<and>
   (distinct (map fst stakers) \<and>
    (\<forall>(v, exposure) \<in> set stakers.
        count_list (map who (others exposure)) address \<le> 1 \<and>
        (v = address \<longrightarrow> address \<notin> who ` set (others exposure))) \<longrightarrow>
      distinct (map validatorId (the (deriveNominatedExposures address (mapStakers e stakers)))))"
proof (intro conjI impI)
  assume "validators dee address \<noteq> None"
  then show "deriveNominatedExposures address dee
        = Some ((case nominators dee address of Some ns \<Rightarrow> ns | None \<Rightarrow> [])
                @ [\<lparr>validatorId = address, validatorIndex = 9999\<rparr>])"
    by (simp add: deriveNominatedExposures_eq)
next
  assume "validators dee address = None"
  then show "deriveNominatedExposures address dee
        = Some (case nominators dee address of Some ns \<Rightarrow> ns | None \<Rightarrow> [])"
    by (simp add: deriveNominatedExposures_eq)
next
  assume asm: "address \<in> fst ` set stakers \<and>
    (\<forall>(v, exposure) \<in> set stakers. v = address \<longrightarrow> address \<notin> who ` set (others exposure))"
  then have "address \<notin> set (backedValidators address stakers)"
    by (auto simp: set_backedValidators)
  then have "count_list (backedValidators address stakers) address = 0"
    by (simp add: count_list_0_iff)
  moreover have "validators (mapStakers e stakers) address \<noteq> None"
    using asm mapStakers_validators [of e stakers address] by blast
  ultimately show "count_list (map validatorId (the (deriveNominatedExposures address (mapStakers e stakers))))
        address = 1"
    by (simp add: deriveNominatedExposures_eq mapStakers_nominators_ids)
next
  assume asm: "distinct (map fst stakers) \<and>
    (\<forall>(v, exposure) \<in> set stakers.
        count_list (map who (others exposure)) address \<le> 1 \<and>
        (v = address \<longrightarrow> address \<notin> who ` set (others exposure)))"
  then have "distinct (backedValidators address stakers)"
    by (intro distinct_backedValidators) auto
  moreover from asm have "address \<notin> set (backedValidators address stakers)"
    by (auto simp: set_backedValidators)
  ultimately show "distinct (map validatorId (the (deriveNominatedExposures address (mapStakers e stakers))))"
    by (simp add: deriveNominatedExposures_eq mapStakers_nominators_ids)
qed

theorem nominated_validators_self_once_witness:
  "validators (mapStakers 7 stakers_cross) ''V'' \<noteq> None \<and>
   ''V'' \<in> fst ` set stakers_cross \<and>
   distinct (map fst stakers_cross) \<and>
   list_all (\<lambda>(v, exposure). count_list (map who (others exposure)) ''V'' \<le> 1 \<and>
                (v \<noteq> ''V'' \<or> ''V'' \<notin> who ` set (others exposure))) stakers_cross \<and>
   deriveNominatedExposures ''V'' (mapStakers 7 stakers_cross)
     = Some [\<lparr>validatorId = ''W'', validatorIndex = 0\<rparr>,
             \<lparr>validatorId = ''V'', validatorIndex = 9999\<rparr>] \<and>
   count_list (map validatorId (the (deriveNominatedExposures ''V'' (mapStakers 7 stakers_cross)))) ''V'' = 1 \<and>
   distinct (map validatorId (the (deriveNominatedExposures ''V'' (mapStakers 7 stakers_cross)))) \<and>
   validators (mapStakers 7 stakers_example) ''N'' = None \<and>
   deriveNominatedExposures ''N'' (mapStakers 7 stakers_example)
     = Some [\<lparr>validatorId = ''V'', validatorIndex = 0\<rparr>,
             \<lparr>validatorId = ''W'', validatorIndex = 1\<rparr>]"
  using nominated_validators_self_once [of "mapStakers 7 stakers_cross" "''V''" stakers_cross 7]
    nominated_validators_self_once [of "mapStakers 7 stakers_example" "''N''" stakers_cross 7]
  by (simp add: mapStakers_def stakers_cross_def stakers_example_def)

section \<open>The range of a request\<close>

text \<open>
  Claim C10. The retention limit is the on-chain constant when it exists, else the
  storage item when it exists, else 0 when \<open>currentEra < 518\<close> and 84 otherwise. With the
  default 0 no request is rejected for its range; with the default 84 a request is
  rejected exactly when \<open>depth > 84\<close> or \<open>era - (depth - 1) < currentEra - 84\<close>.
\<close>

theorem historyDepth_resolution_order:
  "(consts_historyDepth api = Some c \<longrightarrow> fst (historyDepth api currentEra) = c) \<and>
   (consts_historyDepth api = None \<and> query_historyDepth api = Some s \<longrightarrow>
      fst (historyDepth api currentEra) = s) \<and>
   (consts_historyDepth api = None \<and> query_historyDepth api = None \<longrightarrow>
      fst (historyDepth api currentEra) = (if currentEra < 518 then 0 else 84)) \<and>
   (consts_historyDepth api = None \<and> query_historyDepth api = None \<and> currentEra < 518 \<longrightarrow>
      \<not> (\<exists>m. fst (fetchAccountStakingPayout calc api h a depth e u currentEra) = Inl (BadRequest m))) \<and>
   (consts_historyDepth api = None \<and> query_historyDepth api = None \<and> \<not> currentEra < 518 \<longrightarrow>
      ((\<exists>m. fst (fetchAccountStakingPayout calc api h a depth e u currentEra) = Inl (BadRequest m))
        \<longleftrightarrow> depth > 84 \<or> e - (depth - 1) < currentEra - 84))"
proof -
  have 1: "fst (historyDepth api currentEra) = c" if "consts_historyDepth api = Some c"
    using that by (simp add: historyDepth_def)
  have 2: "fst (historyDepth api currentEra) = s"
    if "consts_historyDepth api = None" "query_historyDepth api = Some s"
    using that by (simp add: historyDepth_def)
  have 3: "fst (historyDepth api currentEra) = (if currentEra < 518 then 0 else 84)"
    if "consts_historyDepth api = None" "query_historyDepth api = None"
    using that by (simp add: historyDepth_def)
  note bad = BadRequest_iff [of calc api h a depth e u currentEra]
  have 4: "\<not> (\<exists>m. fst (fetchAccountStakingPayout calc api h a depth e u currentEra) = Inl (BadRequest m))"
    if "consts_historyDepth api = None" "query_historyDepth api = None" "currentEra < 518"
    using 3 [OF that(1,2)] that(3) bad by simp
  have 5: "(\<exists>m. fst (fetchAccountStakingPayout calc api h a depth e u currentEra) = Inl (BadRequest m))
        \<longleftrightarrow> depth > 84 \<or> e - (depth - 1) < currentEra - 84"
    if "consts_historyDepth api = None" "query_historyDepth api = None" "\<not> currentEra < 518"
    using 3 [OF that(1,2)] that(3) bad by simp
  from 1 2 3 4 5 show ?thesis by blast
qed

theorem historyDepth_resolution_order_witness:
  "fst (historyDepth api_example 600) = 84 \<and>
   fst (historyDepth (api_example\<lparr>consts_historyDepth := None, query_historyDepth := Some 30\<rparr>) 600) = 30 \<and>
   historyDepth (api_example\<lparr>consts_historyDepth := None, query_historyDepth := Some 30\<rparr>) 600
     = (30, [HistoryDepth]) \<and>
   fst (historyDepth (api_example\<lparr>consts_historyDepth := None\<rparr>) 517) = 0 \<and>
   fst (historyDepth (api_example\<lparr>consts_historyDepth := None\<rparr>) 518) = 84 \<and>
   fst (fetchAccountStakingPayout calc_example (api_example\<lparr>consts_historyDepth := None\<rparr>)
          ''0xab'' ''X'' 200 0 False 517)
     = Inr \<lparr>at = \<lparr>height = ''1000'', hash = ''0xab''\<rparr>,
            erasPayouts =
              [EraPayouts \<lparr>payouts_era = 0, totalEraRewardPoints = 1000,
                           totalEraPayout = 1000000, payouts = []\<rparr>]\<rparr> \<and>
   fst (fetchAccountStakingPayout calc_example (api_example\<lparr>consts_historyDepth := None\<rparr>)
          ''0xab'' ''X'' 85 518 False 518)
     = Inl (BadRequest ''Must specify a depth less than history_depth'')"
  using historyDepth_resolution_order [of api_example 84 600]
    historyDepth_resolution_order
      [of "api_example\<lparr>consts_historyDepth := None, query_historyDepth := Some 30\<rparr>" _ 600 30]
    historyDepth_resolution_order
      [of "api_example\<lparr>consts_historyDepth := None\<rparr>" _ 517 _ calc_example "''0xab''" "''X''" 200 0 False]
    historyDepth_resolution_order
      [of "api_example\<lparr>consts_historyDepth := None\<rparr>" _ 518 _ calc_example "''0xab''" "''X''" 85 518 False]
  by (simp add: request_defs example_defs)

text \<open>
  Claim C5. With a retention limit other than 0 the request fails with the
  \<open>BadRequest\<close> of the range checks exactly when \<open>depth > historyDepth\<close> or
  \<open>era - (depth - 1) < currentEra - historyDepth\<close>; with the limit 0 it never does; and
  when it does, no per-era data has been read (only the header and, possibly, the
  retention limit).
\<close>

theorem invalid_range_rejected_before_fetching:
  "(fst (historyDepth api currentEra) \<noteq> 0 \<longrightarrow>
      ((\<exists>m. fst (fetchAccountStakingPayout calc api h a depth e u currentEra) = Inl (BadRequest m))
        \<longleftrightarrow> depth > int (fst (historyDepth api currentEra))
            \<or> e - (depth - 1) < currentEra - int (fst (historyDepth api currentEra)))) \<and>
   (fst (historyDepth api currentEra) = 0 \<longrightarrow>
      \<not> (\<exists>m. fst (fetchAccountStakingPayout calc api h a depth e u currentEra) = Inl (BadRequest m))) \<and>
   ((\<exists>m. fst (fetchAccountStakingPayout calc api h a depth e u currentEra) = Inl (BadRequest m)) \<longrightarrow>
      \<not> list_ex isEraData (snd (fetchAccountStakingPayout calc api h a depth e u currentEra)))"
  using BadRequest_iff [of calc api h a depth e u currentEra]
    BadRequest_queries [of calc api h a depth e u currentEra]
  by blast

theorem invalid_range_rejected_before_fetching_witness:
  "fst (historyDepth api_example 100) = 84 \<and>
   fetchAccountStakingPayout calc_example api_example ''0xab'' ''N'' 85 90 False 100
     = (Inl (BadRequest ''Must specify a depth less than history_depth''), [GetHeader ''0xab'']) \<and>
   fetchAccountStakingPayout calc_example api_example ''0xab'' ''N'' 20 10 False 100
     = (Inl (BadRequest
          (''Must specify era and depth such that era - (depth - 1) is less '' @
           ''than or equal to current_era - history_depth.'')), [GetHeader ''0xab'']) \<and>
   fst (fetchAccountStakingPayout calc_example api_example ''0xab'' ''X'' 1 99 False 100)
     = Inr \<lparr>at = \<lparr>height = ''1000'', hash = ''0xab''\<rparr>,
            erasPayouts =
              [EraPayouts \<lparr>payouts_era = 99, totalEraRewardPoints = 1000,
                           totalEraPayout = 1000000, payouts = []\<rparr>]\<rparr> \<and>
   fst (historyDepth (api_example\<lparr>consts_historyDepth := None\<rparr>) 100) = 0 \<and>
   fst (fetchAccountStakingPayout calc_example (api_example\<lparr>consts_historyDepth := None\<rparr>)
          ''0xab'' ''X'' 200 0 False 100)
     = Inr \<lparr>at = \<lparr>height = ''1000'', hash = ''0xab''\<rparr>,
            erasPayouts =
              [EraPayouts \<lparr>payouts_era = 0, totalEraRewardPoints = 1000,
                           totalEraPayout = 1000000, payouts = []\<rparr>]\<rparr> \<and>
   list_ex isEraData
     (snd (fetchAccountStakingPayout calc_example api_example ''0xab'' ''X'' 1 99 False 100)) \<and>
   \<not> list_ex isEraData
     (snd (fetchAccountStakingPayout calc_example api_example ''0xab'' ''N'' 85 90 False 100))"
  using invalid_range_rejected_before_fetching
      [of api_example 100 calc_example "''0xab''" "''N''" 85 90 False]
    invalid_range_rejected_before_fetching
      [of api_example 100 calc_example "''0xab''" "''N''" 20 10 False]
    invalid_range_rejected_before_fetching
      [of "api_example\<lparr>consts_historyDepth := None\<rparr>" 100 calc_example "''0xab''" "''X''" 200 0 False]
  by (simp add: request_defs example_defs)



section \<open>The results of a request\<close>



text \<open>
  Claim C2. For an era in which the account backs no validator the claim asks for the
  message that the address has no nominations. \<open>deriveNominatedExposures\<close> never yields
  \<open>undefined\<close>: for account \<open>X\<close>, which no validator of era 50 lists and which is no
  validator, it yields the empty list, and the result for era 50 is a payout breakdown
  with no payouts.
\<close>

theorem no_nominations_yields_breakdown:
  "nominators (deriveEraExposure_at api_example 50) ''X'' = None \<and>
   validators (deriveEraExposure_at api_example 50) ''X'' = None \<and>
   deriveNominatedExposures ''X'' (deriveEraExposure_at api_example 50) = Some [] \<and>
   fetchAccountStakingPayout calc_example api_example ''0xab'' ''X'' 1 50 False 60
     = (Inr \<lparr>at = \<lparr>height = ''1000'', hash = ''0xab''\<rparr>,
             erasPayouts =
               [EraPayouts \<lparr>payouts_era = 50, totalEraRewardPoints = 1000,
                            totalEraPayout = 1000000, payouts = []\<rparr>]\<rparr>,
        [GetHeader ''0xab'', ErasStakersClipped 50, ErasRewardPoints 50, ErasValidatorReward 50])"
  by (simp add: request_defs example_defs)

end
